theory Spec2Isabelle
  imports Main "HOL-Library.Word"
begin

section \<open>The execution environment of the hooks\<close>

text \<open>
  The repository holds four eBPF traffic-control programs: \<^verbatim>\<open>src/bpf/bpf.c\<close>,
  \<^verbatim>\<open>src/bpf/bpf2.c\<close>, \<^verbatim>\<open>src/screamd/bpf/bpf.c\<close> (one \<^verbatim>\<open>classifier\<close> section
  \<^verbatim>\<open>scream_bpf\<close> each) and \<^verbatim>\<open>src/screamd/bpf.c\<close> (sections \<^verbatim>\<open>egress\<close> and
  \<^verbatim>\<open>ingress\<close>, functions \<^verbatim>\<open>emain\<close> and \<^verbatim>\<open>imain\<close>). Each object file declares one
  array map with 4-byte keys and 4-byte values and calls two kernel helpers,
  \<^verbatim>\<open>map_lookup_elem\<close> and \<^verbatim>\<open>get_prandom_u32\<close>.
\<close>

type_synonym u32 = "32 word"

text \<open>
  Modelled from the spec: the return codes \<^verbatim>\<open>TC_ACT_OK\<close> and \<^verbatim>\<open>TC_ACT_SHOT\<close> come from
  \<^verbatim>\<open>linux/pkt_cls.h\<close>, which is not among the sources; they are the two values of the
  spec's Verdict, \<^verbatim>\<open>PASS\<close> and \<^verbatim>\<open>DROP\<close>.
\<close>

datatype verdict = TC_ACT_OK | TC_ACT_SHOT

text \<open>The helper calls an invocation makes, in the order it makes them.\<close>

datatype helper_call = Call_map_lookup_elem u32 | Call_get_prandom_u32


text \<open>
  The state a hook runs against: the contents of the one map its object file declares
  (\<^verbatim>\<open>map_keymash\<close>, \<^verbatim>\<open>map_scream\<close> or \<^verbatim>\<open>map_sh\<close>), the values the kernel's
  pseudo-random generator will hand out next, and the log of helper calls made so far.
\<close>

record kernel =
  map_elems :: "u32 \<rightharpoonup> u32"
  prandom :: "nat \<Rightarrow> u32"
  helper_log :: "helper_call list"

text \<open>
  \<^verbatim>\<open>map_lookup_elem(&map, &key)\<close> returns a pointer to the value stored under the key,
  or \<^verbatim>\<open>NULL\<close>. The hooks only ever read through the pointer, at once, so the pointer is
  modelled by what it points to: \<open>None\<close> is \<^verbatim>\<open>NULL\<close>.
\<close>

definition map_lookup_elem :: "u32 \<Rightarrow> kernel \<Rightarrow> u32 option \<times> kernel" where
  "map_lookup_elem key k =
     (map_elems k key, k\<lparr>helper_log := helper_log k @ [Call_map_lookup_elem key]\<rparr>)"


text \<open>\<^verbatim>\<open>get_prandom_u32()\<close> hands out the next pseudo-random value and consumes it.\<close>

definition get_prandom_u32 :: "kernel \<Rightarrow> u32 \<times> kernel" where
  "get_prandom_u32 k =
     (prandom k 0,
      k\<lparr>prandom := (\<lambda>n. prandom k (Suc n)),
        helper_log := helper_log k @ [Call_get_prandom_u32]\<rparr>)"

text \<open>Reading through a pointer faults when the pointer is \<^verbatim>\<open>NULL\<close>.\<close>

datatype fault = Null_dereference

definition deref :: "u32 option \<Rightarrow> fault + u32" where
  "deref p = (case p of None \<Rightarrow> Inl Null_dereference | Some v \<Rightarrow> Inr v)"

subsection \<open>C integers\<close>

text \<open>
  \<^verbatim>\<open>int\<close> has 32 bits on the BPF target. A value of type \<^verbatim>\<open>int\<close> is modelled by the
  integer it denotes. Storing a \<^verbatim>\<open>uint32_t\<close> into an \<^verbatim>\<open>int\<close> keeps the bit pattern
  (clang and gcc reduce modulo \<open>2^32\<close> into the signed range); reading four stored bytes
  through an \<^verbatim>\<open>int *\<close> gives the same integer. In \<^verbatim>\<open>u < i\<close> with \<^verbatim>\<open>u\<close> a \<^verbatim>\<open>uint32_t\<close>
  and \<^verbatim>\<open>i\<close> an \<^verbatim>\<open>int\<close>, the usual arithmetic conversions turn \<^verbatim>\<open>i\<close> into an
  \<^verbatim>\<open>unsigned int\<close> (modulo \<open>2^32\<close>) and the comparison is unsigned.
\<close>

definition int_of_u32 :: "u32 \<Rightarrow> int" where
  "int_of_u32 v = sint v"

definition u32_of_int :: "int \<Rightarrow> u32" where
  "u32_of_int i = word_of_int i"

definition UINT32_MAX :: u32 where
  "UINT32_MAX = 0xFFFFFFFF"

section \<open>The hook entry points\<close>

text \<open>
  \<^verbatim>\<open>src/bpf/bpf.c\<close>, section \<^verbatim>\<open>classifier\<close>:
  \<^verbatim>\<open>
  uint32_t key = 0, *val = 0;
  val = map_lookup_elem(&map_keymash, &key);
  if (val && get_prandom_u32() < *val) return TC_ACT_SHOT;
  return TC_ACT_OK;
  \<close>
  The \<^verbatim>\<open>&&\<close> does not evaluate its right operand when \<^verbatim>\<open>val\<close> is \<^verbatim>\<open>NULL\<close>.
\<close>

definition bpf_scream_bpf :: "'skb \<Rightarrow> kernel \<Rightarrow> (fault + verdict) \<times> kernel" where
  "bpf_scream_bpf skb k =
     (let key = (0::u32);
          (val, k1) = map_lookup_elem key k
      in if val \<noteq> None
         then (let (r, k2) = get_prandom_u32 k1
               in case deref val of
                    Inl f \<Rightarrow> (Inl f, k2)
                  | Inr v \<Rightarrow>
                      if r < v then (Inr TC_ACT_SHOT, k2) else (Inr TC_ACT_OK, k2))
         else (Inr TC_ACT_OK, k1))"

text \<open>
  \<^verbatim>\<open>src/bpf/bpf2.c\<close>, section \<^verbatim>\<open>classifier\<close>:
  \<^verbatim>\<open>
  uint32_t key = 0, *val;
  val = map_lookup_elem(&map_scream, &key);
  int prob_frac = 0;
  if (val) prob_frac = *val;
  if (get_prandom_u32() < prob_frac) return TC_ACT_SHOT;
  return TC_ACT_OK;
  \<close>
\<close>

definition bpf2_scream_bpf :: "'skb \<Rightarrow> kernel \<Rightarrow> (fault + verdict) \<times> kernel" where
  "bpf2_scream_bpf skb k =
     (let key = (0::u32);
          (val, k1) = map_lookup_elem key k;
          prob_frac0 = (0::int)
      in case (if val \<noteq> None then map_sum id int_of_u32 (deref val)
               else Inr prob_frac0) of
           Inl f \<Rightarrow> (Inl f, k1)
         | Inr prob_frac \<Rightarrow>
             (let (r, k2) = get_prandom_u32 k1
              in if r < u32_of_int prob_frac
                 then (Inr TC_ACT_SHOT, k2) else (Inr TC_ACT_OK, k2)))"

text \<open>
  \<^verbatim>\<open>src/screamd/bpf/bpf.c\<close>, section \<^verbatim>\<open>classifier\<close>:
  \<^verbatim>\<open>
  int key = 0, *val;
  val = map_lookup_elem(&map_scream, &key);
  int prob_frac = UINT32_MAX / 10;
  if (val) prob_frac = *val;
  if (get_prandom_u32() < prob_frac) return TC_ACT_SHOT;
  return TC_ACT_OK;
  \<close>
  The key is an \<^verbatim>\<open>int\<close> whose four bytes are handed to the helper; the value is read
  through an \<^verbatim>\<open>int *\<close>.
\<close>

definition screamd_scream_bpf :: "'skb \<Rightarrow> kernel \<Rightarrow> (fault + verdict) \<times> kernel" where
  "screamd_scream_bpf skb k =
     (let key = (0::int);
          (val, k1) = map_lookup_elem (u32_of_int key) k;
          prob_frac0 = int_of_u32 (UINT32_MAX div 10)
      in case (if val \<noteq> None then map_sum id int_of_u32 (deref val)
               else Inr prob_frac0) of
           Inl f \<Rightarrow> (Inl f, k1)
         | Inr prob_frac \<Rightarrow>
             (let (r, k2) = get_prandom_u32 k1
              in if r < u32_of_int prob_frac
                 then (Inr TC_ACT_SHOT, k2) else (Inr TC_ACT_OK, k2)))"

text \<open>
  \<^verbatim>\<open>src/screamd/bpf.c\<close>, sections \<^verbatim>\<open>egress\<close> and \<^verbatim>\<open>ingress\<close>; both bodies are
  \<^verbatim>\<open>
  if (get_prandom_u32() < UINT32_MAX / 10) return TC_ACT_SHOT;
  return TC_ACT_OK;
  \<close>
  The file declares the map \<^verbatim>\<open>map_sh\<close> and never looks it up.
\<close>

definition emain :: "'skb \<Rightarrow> kernel \<Rightarrow> (fault + verdict) \<times> kernel" where
  "emain skb k =
     (let (r, k1) = get_prandom_u32 k
      in if r < UINT32_MAX div 10 then (Inr TC_ACT_SHOT, k1) else (Inr TC_ACT_OK, k1))"

definition imain :: "'skb \<Rightarrow> kernel \<Rightarrow> (fault + verdict) \<times> kernel" where
  "imain skb k =
     (let (r, k1) = get_prandom_u32 k
      in if r < UINT32_MAX div 10 then (Inr TC_ACT_SHOT, k1) else (Inr TC_ACT_OK, k1))"

section \<open>The decision function as the spec words it\<close>

text \<open>
  The spec's \<^verbatim>\<open>decide(threshold_or_default, draw)\<close>: \<^verbatim>\<open>DROP\<close> if
  \<^verbatim>\<open>draw < threshold_or_default\<close>, else \<^verbatim>\<open>PASS\<close>, on unsigned 32-bit values; and the
  threshold an entry point with a given fallback constant works with. The sources have no
  function of either name: the entry points above are compared with these.
\<close>

definition spec_decide :: "u32 \<Rightarrow> u32 \<Rightarrow> verdict" where
  "spec_decide threshold draw = (if draw < threshold then TC_ACT_SHOT else TC_ACT_OK)"

definition spec_threshold_or_default :: "u32 option \<Rightarrow> u32 \<Rightarrow> u32" where
  "spec_threshold_or_default stored fallback =
     (case stored of None \<Rightarrow> fallback | Some v \<Rightarrow> v)"



definition kernel_set :: "u32 \<Rightarrow> u32 \<Rightarrow> kernel" where
  "kernel_set v d = \<lparr>map_elems = [0 \<mapsto> v], prandom = (\<lambda>n. d), helper_log = []\<rparr>"

section \<open>Helper lemmas\<close>

lemma u32_of_int_of_u32: "u32_of_int (int_of_u32 v) = v"
  by (simp add: u32_of_int_def int_of_u32_def)

lemma u32_of_int_zero: "u32_of_int 0 = 0"
  by (simp add: u32_of_int_def)

lemma fallback_screamd: "u32_of_int (int_of_u32 (UINT32_MAX div 10)) = UINT32_MAX div 10"
  by (rule u32_of_int_of_u32)




lemma bpf_scream_bpf_result:
  "bpf_scream_bpf skb k =
     (case map_elems k 0 of
        None \<Rightarrow> (Inr TC_ACT_OK, k\<lparr>helper_log := helper_log k @ [Call_map_lookup_elem 0]\<rparr>)
      | Some v \<Rightarrow>
          (Inr (if prandom k 0 < v then TC_ACT_SHOT else TC_ACT_OK),
           k\<lparr>prandom := (\<lambda>n. prandom k (Suc n)),
             helper_log := helper_log k @ [Call_map_lookup_elem 0, Call_get_prandom_u32]\<rparr>))"
  by (simp add: bpf_scream_bpf_def map_lookup_elem_def get_prandom_u32_def deref_def
      split: option.split)

lemma bpf2_scream_bpf_result:
  "bpf2_scream_bpf skb k =
     (Inr (if prandom k 0 < (case map_elems k 0 of None \<Rightarrow> 0 | Some v \<Rightarrow> v)
           then TC_ACT_SHOT else TC_ACT_OK),
      k\<lparr>prandom := (\<lambda>n. prandom k (Suc n)),
        helper_log := helper_log k @ [Call_map_lookup_elem 0, Call_get_prandom_u32]\<rparr>)"
  by (simp add: bpf2_scream_bpf_def map_lookup_elem_def get_prandom_u32_def deref_def
      u32_of_int_of_u32 u32_of_int_zero split: option.split)

lemma screamd_scream_bpf_result:
  "screamd_scream_bpf skb k =
     (Inr (if prandom k 0 < (case map_elems k 0 of None \<Rightarrow> UINT32_MAX div 10 | Some v \<Rightarrow> v)
           then TC_ACT_SHOT else TC_ACT_OK),
      k\<lparr>prandom := (\<lambda>n. prandom k (Suc n)),
        helper_log := helper_log k @ [Call_map_lookup_elem 0, Call_get_prandom_u32]\<rparr>)"
  by (simp add: screamd_scream_bpf_def map_lookup_elem_def get_prandom_u32_def deref_def
      u32_of_int_of_u32 u32_of_int_zero split: option.split)

lemma emain_result:
  "emain skb k =
     (Inr (if prandom k 0 < UINT32_MAX div 10 then TC_ACT_SHOT else TC_ACT_OK),
      k\<lparr>prandom := (\<lambda>n. prandom k (Suc n)),
        helper_log := helper_log k @ [Call_get_prandom_u32]\<rparr>)"
  by (simp add: emain_def get_prandom_u32_def)

lemma imain_result:
  "imain skb k =
     (Inr (if prandom k 0 < UINT32_MAX div 10 then TC_ACT_SHOT else TC_ACT_OK),
      k\<lparr>prandom := (\<lambda>n. prandom k (Suc n)),
        helper_log := helper_log k @ [Call_get_prandom_u32]\<rparr>)"
  by (simp add: imain_def get_prandom_u32_def)

lemma unat_image_less: "unat ` {d::u32. d < t} = {..<unat t}"
proof (rule set_eqI)
  fix n
  show "n \<in> unat ` {d::u32. d < t} \<longleftrightarrow> n \<in> {..<unat t}"
  proof
    assume "n \<in> unat ` {d::u32. d < t}"
    then show "n \<in> {..<unat t}" by (auto simp: word_less_nat_alt)
  next
    assume n: "n \<in> {..<unat t}"
    have "unat t < 2 ^ 32" using unsigned_less [of t, where ?'a = nat] by simp
    with n have "n < 2 ^ 32" by simp
    then have u: "unat (word_of_nat n :: u32) = n" by (simp add: unat_of_nat)
    with n have "(word_of_nat n :: u32) < t" by (simp add: word_less_nat_alt)
    with u show "n \<in> unat ` {d::u32. d < t}" by (metis (mono_tags) imageI mem_Collect_eq)
  qed
qed

lemma card_less_u32: "card {d::u32. d < t} = unat t"
proof -
  have "inj_on unat {d::u32. d < t}" by (simp add: inj_on_def word_unat_eq_iff)
  then have "card (unat ` {d::u32. d < t}) = card {d::u32. d < t}" by (rule card_image)
  then show ?thesis by (simp add: unat_image_less)
qed

lemma less_max_u32: "(d::u32) < 0xFFFFFFFF \<longleftrightarrow> d \<noteq> 0xFFFFFFFF"
proof -
  have "(0xFFFFFFFF::u32) = - 1" by simp
  then show ?thesis by (metis word_order.not_eq_extremum)
qed

section \<open>Verdicts\<close>

text \<open>
  C1. For every threshold (the stored value when the register is set, otherwise the
  fallback constant of the entry point: 0 in \<^verbatim>\<open>src/bpf/bpf.c\<close> and \<^verbatim>\<open>src/bpf/bpf2.c\<close>,
  \<^verbatim>\<open>UINT32_MAX / 10\<close> in \<^verbatim>\<open>src/screamd/bpf/bpf.c\<close>) and every draw, each classifier
  entry point returns \<^verbatim>\<open>TC_ACT_SHOT\<close> if the draw is below the threshold under unsigned
  32-bit comparison, and \<^verbatim>\<open>TC_ACT_OK\<close> otherwise.
\<close>

theorem C1_verdict_is_decide:
  "fst (bpf_scream_bpf skb k) =
     Inr (spec_decide (spec_threshold_or_default (map_elems k 0) 0) (prandom k 0))
   \<and> fst (bpf2_scream_bpf skb k) =
     Inr (spec_decide (spec_threshold_or_default (map_elems k 0) 0) (prandom k 0))
   \<and> fst (screamd_scream_bpf skb k) =
     Inr (spec_decide (spec_threshold_or_default (map_elems k 0) (UINT32_MAX div 10))
            (prandom k 0))"
  by (simp add: bpf_scream_bpf_result bpf2_scream_bpf_result screamd_scream_bpf_result
      spec_decide_def spec_threshold_or_default_def split: option.split)

text \<open>
  C7. In \<^verbatim>\<open>src/bpf/bpf.c\<close>, with the threshold 0 stored the verdict is \<^verbatim>\<open>TC_ACT_OK\<close>
  for every draw; with the threshold \<open>2^32 - 1\<close> stored it is \<^verbatim>\<open>TC_ACT_SHOT\<close> for every
  draw except the draw \<open>2^32 - 1\<close>, for which it is \<^verbatim>\<open>TC_ACT_OK\<close>.
\<close>

theorem C7_extreme_thresholds:
  "fst (bpf_scream_bpf skb (k\<lparr>map_elems := (map_elems k)(0 \<mapsto> 0)\<rparr>)) = Inr TC_ACT_OK
   \<and> fst (bpf_scream_bpf skb (k\<lparr>map_elems := (map_elems k)(0 \<mapsto> 0xFFFFFFFF)\<rparr>)) =
       Inr (if prandom k 0 = 0xFFFFFFFF then TC_ACT_OK else TC_ACT_SHOT)"
  by (simp add: bpf_scream_bpf_result less_max_u32)

text \<open>
  C10. The classifier of \<^verbatim>\<open>src/bpf/bpf.c\<close> and the classifier of \<^verbatim>\<open>src/bpf/bpf2.c\<close>
  return the same verdict in every state, whether the register is set or not and whatever
  the draw: guarding the comparison with the lookup's success gives the verdict that
  comparing against the fallback 0 gives.
\<close>

theorem C10_bpf_bpf2_same_verdict:
  "fst (bpf_scream_bpf skb k) = fst (bpf2_scream_bpf skb' k)"
  by (simp add: bpf_scream_bpf_result bpf2_scream_bpf_result split: option.split)

section \<open>The never-written register\<close>




section \<open>Signed holders, unsigned comparison\<close>

text \<open>
  C4. In \<^verbatim>\<open>src/bpf/bpf2.c\<close> and \<^verbatim>\<open>src/screamd/bpf/bpf.c\<close> the threshold passes through
  the \<^verbatim>\<open>int\<close> variable \<^verbatim>\<open>prob_frac\<close>. For every stored value \<open>v\<close>, also from \<open>2^31\<close>
  on, the verdict is \<^verbatim>\<open>TC_ACT_SHOT\<close> exactly when the draw is below \<open>v\<close> as unsigned
  numbers, and exactly \<open>v\<close> of the \<open>2^32\<close> draws are dropped: the comparison neither
  turns signed nor clamps.
\<close>

theorem C4_signed_holder_unsigned_compare:
  "map_elems k 0 = Some v \<Longrightarrow>
     fst (bpf2_scream_bpf skb k) =
       Inr (if unat (prandom k 0) < unat v then TC_ACT_SHOT else TC_ACT_OK)
   \<and> fst (screamd_scream_bpf skb k) =
       Inr (if unat (prandom k 0) < unat v then TC_ACT_SHOT else TC_ACT_OK)
   \<and> card {d. fst (bpf2_scream_bpf skb (k\<lparr>prandom := (prandom k)(0 := d)\<rparr>)) =
               Inr TC_ACT_SHOT} = unat v
   \<and> card {d. fst (screamd_scream_bpf skb (k\<lparr>prandom := (prandom k)(0 := d)\<rparr>)) =
               Inr TC_ACT_SHOT} = unat v"
  by (simp add: bpf2_scream_bpf_result screamd_scream_bpf_result
      word_less_nat_alt [symmetric] card_less_u32)

text \<open>
  The stored value \<open>2^31\<close> is negative as an \<^verbatim>\<open>int\<close>; the draw 5 is dropped all the
  same.
\<close>

theorem C4_signed_holder_unsigned_compare_witness:
  "map_elems (kernel_set 0x80000000 5) 0 = Some 0x80000000
   \<and> int_of_u32 0x80000000 < 0
   \<and> fst (bpf2_scream_bpf () (kernel_set 0x80000000 5)) = Inr TC_ACT_SHOT
   \<and> fst (screamd_scream_bpf () (kernel_set 0x80000000 5)) = Inr TC_ACT_SHOT"
proof -
  have stored: "map_elems (kernel_set 0x80000000 5) 0 = Some 0x80000000"
    by (simp add: kernel_set_def)
  have draw: "prandom (kernel_set 0x80000000 5) 0 = 5"
    by (simp add: kernel_set_def)
  have neg: "int_of_u32 0x80000000 < 0" by (simp add: int_of_u32_def)
  from C4_signed_holder_unsigned_compare [OF stored, of "()"] stored draw neg
  show ?thesis by simp
qed

section \<open>Drop counts\<close>

text \<open>
  C6. In \<^verbatim>\<open>src/bpf/bpf.c\<close>, for every threshold \<open>t\<close> (the stored value, or 0 when the
  register is unset), exactly \<open>t\<close> of the \<open>2^32\<close> values the next draw can take give
  \<^verbatim>\<open>TC_ACT_SHOT\<close>; under a uniform draw the drop probability is \<open>t / 2^32\<close>.
\<close>

theorem C6_drop_count:
  "card {d. fst (bpf_scream_bpf skb (k\<lparr>prandom := (prandom k)(0 := d)\<rparr>)) = Inr TC_ACT_SHOT}
     = unat (spec_threshold_or_default (map_elems k 0) 0)
   \<and> card (UNIV :: u32 set) = 2 ^ 32"
  by (simp add: bpf_scream_bpf_result spec_threshold_or_default_def card_less_u32 card_word
      split: option.split)

section \<open>What an invocation reads, draws and leaves behind\<close>

text \<open>
  C2, as stated. Every entry point, the egress and ingress ones included, would read the
  register before deciding, so that its verdict follows the stored threshold. It fails for
  \<^verbatim>\<open>emain\<close> and \<^verbatim>\<open>imain\<close> of \<^verbatim>\<open>src/screamd/bpf.c\<close>: with the threshold 0 stored and
  the draw 0, the stored threshold asks for \<^verbatim>\<open>TC_ACT_OK\<close>, both return
  \<^verbatim>\<open>TC_ACT_SHOT\<close>, and neither has looked the map up.
\<close>

theorem C2_emain_imain_skip_store:
  "fst (emain () (kernel_set 0 0)) \<noteq>
     Inr (spec_decide (spec_threshold_or_default (map_elems (kernel_set 0 0) 0)
            (UINT32_MAX div 10)) (prandom (kernel_set 0 0) 0))
   \<and> Call_map_lookup_elem 0 \<notin> set (helper_log (snd (emain () (kernel_set 0 0))))
   \<and> fst (imain () (kernel_set 0 0)) \<noteq>
     Inr (spec_decide (spec_threshold_or_default (map_elems (kernel_set 0 0) 0)
            (UINT32_MAX div 10)) (prandom (kernel_set 0 0) 0))
   \<and> Call_map_lookup_elem 0 \<notin> set (helper_log (snd (imain () (kernel_set 0 0))))"
  by (simp add: emain_result imain_result kernel_set_def spec_decide_def
      spec_threshold_or_default_def UINT32_MAX_def)

text \<open>
  C2, amended. The three classifier entry points look the register up (key 0) as the
  first helper call of every invocation, and their verdict is the decision for the stored
  threshold, or for the fallback when it is unset. The egress and ingress entry points of
  \<^verbatim>\<open>src/screamd/bpf.c\<close> make one helper call, the draw, and decide against the constant
  \<^verbatim>\<open>UINT32_MAX / 10\<close> whatever the register holds.
\<close>

theorem C2_classifiers_read_store:
  "take (Suc (length (helper_log k))) (helper_log (snd (bpf_scream_bpf skb k))) =
     helper_log k @ [Call_map_lookup_elem 0]
   \<and> take (Suc (length (helper_log k))) (helper_log (snd (bpf2_scream_bpf skb k))) =
     helper_log k @ [Call_map_lookup_elem 0]
   \<and> take (Suc (length (helper_log k))) (helper_log (snd (screamd_scream_bpf skb k))) =
     helper_log k @ [Call_map_lookup_elem 0]
   \<and> fst (bpf_scream_bpf skb k) =
     Inr (spec_decide (spec_threshold_or_default (map_elems k 0) 0) (prandom k 0))
   \<and> fst (bpf2_scream_bpf skb k) =
     Inr (spec_decide (spec_threshold_or_default (map_elems k 0) 0) (prandom k 0))
   \<and> fst (screamd_scream_bpf skb k) =
     Inr (spec_decide (spec_threshold_or_default (map_elems k 0) (UINT32_MAX div 10))
            (prandom k 0))
   \<and> helper_log (snd (emain skb k)) = helper_log k @ [Call_get_prandom_u32]
   \<and> helper_log (snd (imain skb k)) = helper_log k @ [Call_get_prandom_u32]
   \<and> fst (emain skb k) = Inr (spec_decide (UINT32_MAX div 10) (prandom k 0))
   \<and> fst (imain skb k) = Inr (spec_decide (UINT32_MAX div 10) (prandom k 0))"
  by (simp add: bpf_scream_bpf_result bpf2_scream_bpf_result screamd_scream_bpf_result
      emain_result imain_result spec_decide_def spec_threshold_or_default_def
      split: option.split)



text \<open>
  C8. The verdict depends on the register and the draw alone: two invocations of the same
  entry point in states that agree on the register and on the next draw return the same
  verdict, whatever the two packet handles are.
\<close>

theorem C8_packet_handle_ignored:
  "map_elems k1 0 = map_elems k2 0 \<Longrightarrow> prandom k1 0 = prandom k2 0 \<Longrightarrow>
     fst (bpf_scream_bpf skb1 k1) = fst (bpf_scream_bpf skb2 k2)
   \<and> fst (bpf2_scream_bpf skb1 k1) = fst (bpf2_scream_bpf skb2 k2)
   \<and> fst (screamd_scream_bpf skb1 k1) = fst (screamd_scream_bpf skb2 k2)
   \<and> fst (emain skb1 k1) = fst (emain skb2 k2)
   \<and> fst (imain skb1 k1) = fst (imain skb2 k2)"
  by (simp add: bpf_scream_bpf_result bpf2_scream_bpf_result screamd_scream_bpf_result
      emain_result imain_result split: option.split)

text \<open>
  Two packets, and two states that differ in their helper logs only: threshold 7, draw 3,
  both dropped.
\<close>

theorem C8_packet_handle_ignored_witness:
  "map_elems (kernel_set 7 3) 0 =
     map_elems ((kernel_set 7 3)\<lparr>helper_log := [Call_get_prandom_u32]\<rparr>) 0
   \<and> prandom (kernel_set 7 3) 0 =
     prandom ((kernel_set 7 3)\<lparr>helper_log := [Call_get_prandom_u32]\<rparr>) 0
   \<and> fst (bpf_scream_bpf ''ping'' (kernel_set 7 3)) =
       fst (bpf_scream_bpf ''pong''
             ((kernel_set 7 3)\<lparr>helper_log := [Call_get_prandom_u32]\<rparr>))
   \<and> fst (bpf_scream_bpf ''ping'' (kernel_set 7 3)) = Inr TC_ACT_SHOT
   \<and> fst (emain ''ping'' (kernel_set 7 3)) =
       fst (emain ''pong'' ((kernel_set 7 3)\<lparr>helper_log := [Call_get_prandom_u32]\<rparr>))"
proof -
  let ?k2 = "(kernel_set 7 3)\<lparr>helper_log := [Call_get_prandom_u32]\<rparr>"
  have m: "map_elems (kernel_set 7 3) 0 = map_elems ?k2 0" by simp
  have p: "prandom (kernel_set 7 3) 0 = prandom ?k2 0" by simp
  have s: "fst (bpf_scream_bpf ''ping'' (kernel_set 7 3)) = Inr TC_ACT_SHOT"
    by (simp add: bpf_scream_bpf_result kernel_set_def)
  from C8_packet_handle_ignored [OF m p, of "''ping''" "''pong''"] m p s
  show ?thesis by simp
qed

text \<open>
  C9. No entry point changes the register: after an invocation the map holds what it held
  before, for every state and every packet.
\<close>

theorem C9_store_unchanged:
  "map_elems (snd (bpf_scream_bpf skb k)) = map_elems k
   \<and> map_elems (snd (bpf2_scream_bpf skb k)) = map_elems k
   \<and> map_elems (snd (screamd_scream_bpf skb k)) = map_elems k
   \<and> map_elems (snd (emain skb k)) = map_elems k
   \<and> map_elems (snd (imain skb k)) = map_elems k"
  by (simp add: bpf_scream_bpf_result bpf2_scream_bpf_result screamd_scream_bpf_result
      emain_result imain_result split: option.split)

end
